theory Spec2Isabelle
  imports Complex_Main
begin

section \<open>Tables\<close>

text \<open>
  The feature pipeline works on in-memory data frames.  A frame is modelled by its schema
  (the ordered column names with their column types) and its rows.  The rows are typed
  records holding the columns the pipeline reads; a nullable cell is an \<open>option\<close>.
  The exceptions the Python code or the data-frame library raise are values of \<open>error\<close>.
\<close>

datatype error =
    KeyError
  | ValueError string
  | ShapeError
  | OutOfBoundsError
  | ColumnNotFoundError string
  | InvalidOperationError

datatype time_unit = Ns | Us | Ms

datatype dtype = Utf8 | Int8 | Int32 | Int64 | Float64 | Date | Datetime time_unit

record 'r frame =
  schema :: "(string \<times> dtype) list"
  rows :: "'r list"

definition columns :: "'r frame \<Rightarrow> string list" where
  "columns df = map fst (schema df)"

definition height :: "'r frame \<Rightarrow> nat" where
  "height df = length (rows df)"

text \<open>Every table of the pipeline carries the key column \<open>customer_id\<close>.\<close>

record keyed =
  customer_id :: "string option"

section \<open>DatasetSampler\<close>

datatype CustomerDatasetSize = LARGE | MEDIUM | SMALL

text \<open>The class attribute \<open>_SIZES\<close>, a dictionary in the order it is written.\<close>

definition SIZES :: "(CustomerDatasetSize \<times> nat) list" where
  "SIZES = [(LARGE, 50000), (MEDIUM, 5000), (SMALL, 1000)]"

definition get_supported_sizes :: "(CustomerDatasetSize \<times> nat) list" where
  "get_supported_sizes = SIZES"

record DatasetSampler =
  size_class :: CustomerDatasetSize

definition DatasetSampler_init :: "CustomerDatasetSize \<Rightarrow> DatasetSampler" where
  "DatasetSampler_init sz = \<lparr>size_class = sz\<rparr>"

subsection \<open>The host's random generator\<close>

text \<open>
  \<open>sample\<close> calls \<open>random.seed(42)\<close> and then the frame's \<open>sample(n=...)\<close> with no seed
  of its own.  Neither generator is code of the repository, so both are parameters:
  \<^item> \<open>py_seed a\<close> is the state of the process-wide generator after \<open>random.seed(a)\<close>
    (the state depends on \<open>a\<close> only: seeding overwrites what was there);
  \<^item> \<open>py_randint lo hi g\<close> is \<open>random.randint(lo, hi)\<close> in state \<open>g\<close>: the number drawn
    and the state after the draw;
  \<^item> \<open>rand_index s n h\<close> is the list of row positions the frame library's generator,
    seeded with \<open>s\<close>, draws for a sample of \<open>n\<close> rows out of \<open>h\<close>.
  The frame library takes the seed of an unseeded \<open>sample\<close> from the process-wide
  generator (\<open>random.randint(0, 10000)\<close>); this is the one fact about the library the
  model of determinism rests on.
\<close>

record 'g host =
  py_seed :: "int \<Rightarrow> 'g"
  py_randint :: "int \<Rightarrow> int \<Rightarrow> 'g \<Rightarrow> int \<times> 'g"
  rand_index :: "int \<Rightarrow> nat \<Rightarrow> nat \<Rightarrow> nat list"

text \<open>
  The contract of drawing without replacement: \<open>n\<close> distinct positions below \<open>h\<close>,
  whenever \<open>n\<close> does not exceed \<open>h\<close>.
\<close>

definition draws_without_replacement :: "'g host \<Rightarrow> bool" where
  "draws_without_replacement H \<longleftrightarrow>
     (\<forall>s n h. n \<le> h \<longrightarrow>
        length (rand_index H s n h) = n \<and> distinct (rand_index H s n h) \<and>
        (\<forall>i \<in> set (rand_index H s n h). i < h))"

text \<open>Taking rows by position; a position outside the table is an error of the library.\<close>

fun gather :: "nat list \<Rightarrow> 'a list \<Rightarrow> error + 'a list" where
  "gather [] xs = Inr []"
| "gather (i # is) xs =
     (if i < length xs
      then (case gather is xs of Inl e \<Rightarrow> Inl e | Inr ys \<Rightarrow> Inr (xs ! i # ys))
      else Inl OutOfBoundsError)"

text \<open>
  \<open>df.sample(n=n)\<close>: without replacement, no shuffle, no seed given.  The library raises
  a shape error when \<open>n\<close> exceeds the number of rows.
\<close>

definition df_sample ::
  "'g host \<Rightarrow> nat \<Rightarrow> 'r frame \<Rightarrow> 'g \<Rightarrow> (error + 'r frame) \<times> 'g" where
  "df_sample H n df g =
     (let (s, g') = py_randint H 0 10000 g in
      if height df < n then (Inl ShapeError, g')
      else (case gather (rand_index H s n (height df)) (rows df) of
              Inl e \<Rightarrow> (Inl e, g')
            | Inr rs \<Rightarrow> (Inr (df\<lparr>rows := rs\<rparr>), g')))"

text \<open>\<open>df.select("customer_id")\<close>: the key column alone.\<close>

definition select_customer_id ::
  "('a keyed_scheme) frame \<Rightarrow> error + string option list" where
  "select_customer_id df =
     (if ''customer_id'' \<in> set (columns df) then Inr (map customer_id (rows df))
      else Inl (ColumnNotFoundError ''customer_id''))"

text \<open>
  \<open>left.join(right, on="customer_id")\<close>, an inner join against a frame holding only the
  key column: a left row appears once for every right row with the same key, a null key
  matches nothing, and the right frame contributes no column.
\<close>

definition join_on_customer_id ::
  "('a keyed_scheme) frame \<Rightarrow> string option list \<Rightarrow> error + ('a keyed_scheme) frame" where
  "join_on_customer_id left keys =
     (if ''customer_id'' \<in> set (columns left)
      then Inr (left\<lparr>rows :=
             concat (map (\<lambda>t. map (\<lambda>k. t)
                      (filter (\<lambda>k. k \<noteq> None \<and> k = customer_id t) keys)) (rows left))\<rparr>)
      else Inl (ColumnNotFoundError ''customer_id''))"

record ('c, 't) sampled =
  customers :: "'c frame"
  transactions :: "'t frame"

text \<open>
  \<open>DatasetSampler.sample\<close>.  The state of the process-wide generator is passed in and
  returned; the log lines are left out.
\<close>

definition sample ::
  "'g host \<Rightarrow> DatasetSampler \<Rightarrow> ('a keyed_scheme) frame \<Rightarrow> ('b keyed_scheme) frame \<Rightarrow> 'g \<Rightarrow>
     (error + ('a keyed_scheme, 'b keyed_scheme) sampled) \<times> 'g" where
  "sample H self customers_df transaction_df g0 =
     (let g = py_seed H 42 in
      case map_of SIZES (size_class self) of
        None \<Rightarrow> (Inl KeyError, g)
      | Some n_customers \<Rightarrow>
          (case df_sample H n_customers customers_df g of
             (Inl e, g') \<Rightarrow> (Inl e, g')
           | (Inr cs, g') \<Rightarrow>
               (case select_customer_id cs of
                  Inl e \<Rightarrow> (Inl e, g')
                | Inr keys \<Rightarrow>
                    (case join_on_customer_id transaction_df keys of
                       Inl e \<Rightarrow> (Inl e, g')
                     | Inr ts \<Rightarrow> (Inr \<lparr>customers = cs, transactions = ts\<rparr>, g')))))"

section \<open>Customer features\<close>

text \<open>
  A numeric cell: the \<open>age\<close> column is read as 64-bit integers or as 64-bit floats,
  depending on the source table.  The floats are modelled by the reals they denote
  (the comparisons against the integer bounds below are exact on them).
\<close>

datatype number = I64 int | F64 real

fun num_val :: "number \<Rightarrow> real" where
  "num_val (I64 i) = of_int i"
| "num_val (F64 x) = x"

record customer = keyed +
  club_member_status :: "string option"
  age :: "number option"
  postal_code :: "string option"

record customer_features = customer +
  age_group :: "string option"

text \<open>\<open>pl.col("club_member_status").fill_null("ABSENT")\<close> on one cell.\<close>

definition fill_null :: "'a \<Rightarrow> 'a option \<Rightarrow> 'a option" where
  "fill_null v c = (case c of None \<Rightarrow> Some v | Some x \<Rightarrow> Some x)"

definition filling_missing_club_member_status ::
  "('a customer_scheme) frame \<Rightarrow> ('a customer_scheme) frame" where
  "filling_missing_club_member_status df =
     df\<lparr>rows := map (\<lambda>r. r\<lparr>club_member_status := fill_null ''ABSENT'' (club_member_status r)\<rparr>)
                    (rows df)\<rparr>"

text \<open>\<open>df.drop_nulls(subset=["age"])\<close>.\<close>

definition drop_na_age :: "('a customer_scheme) frame \<Rightarrow> ('a customer_scheme) frame" where
  "drop_na_age df = df\<lparr>rows := filter (\<lambda>r. age r \<noteq> None) (rows df)\<rparr>"

text \<open>
  \<open>is_between(lo, hi)\<close> is closed on both ends and null on a null cell; a \<open>when\<close> whose
  condition is null takes the next branch.
\<close>

definition is_between :: "number option \<Rightarrow> real \<Rightarrow> real \<Rightarrow> bool option" where
  "is_between c lo hi =
     (case c of None \<Rightarrow> None | Some a \<Rightarrow> Some (lo \<le> num_val a \<and> num_val a \<le> hi))"

definition holds :: "bool option \<Rightarrow> bool" where
  "holds c = (c = Some True)"

definition create_age_group :: "number option \<Rightarrow> string option" where
  "create_age_group a =
     (if holds (is_between a 0 18) then Some ''0-18''
      else if holds (is_between a 19 25) then Some ''19-25''
      else if holds (is_between a 26 35) then Some ''26-35''
      else if holds (is_between a 36 45) then Some ''36-45''
      else if holds (is_between a 46 55) then Some ''46-55''
      else if holds (is_between a 56 65) then Some ''56-65''
      else Some ''66+'')"

text \<open>\<open>pl.col("age").cast(pl.Float64)\<close> on one cell.\<close>

definition cast_float64 :: "number option \<Rightarrow> number option" where
  "cast_float64 c = (case c of None \<Rightarrow> None | Some a \<Rightarrow> Some (F64 (num_val a)))"

definition required_columns :: "string list" where
  "required_columns = [''customer_id'', ''club_member_status'', ''age'', ''postal_code'']"

text \<open>\<open>sep.join(xs)\<close> of Python.\<close>

fun str_join :: "string \<Rightarrow> string list \<Rightarrow> string" where
  "str_join sep [] = []"
| "str_join sep [x] = x"
| "str_join sep (x # y # ys) = x @ sep @ str_join sep (y # ys)"

text \<open>
  \<open>with_columns\<close> replaces a column of the same name where it stands and appends a new
  one; \<open>select\<close> keeps the named columns in the order given.
\<close>

fun with_column :: "string \<Rightarrow> dtype \<Rightarrow> (string \<times> dtype) list \<Rightarrow> (string \<times> dtype) list" where
  "with_column c t [] = [(c, t)]"
| "with_column c t (p # ps) = (if fst p = c then (c, t) # ps else p # with_column c t ps)"

definition select_schema :: "string list \<Rightarrow> (string \<times> dtype) list \<Rightarrow> (string \<times> dtype) list" where
  "select_schema cs sch = concat (map (\<lambda>c. case map_of sch c of None \<Rightarrow> [] | Some t \<Rightarrow> [(c, t)]) cs)"

text \<open>
  The two expressions of the one \<open>with_columns\<close> call both read the frame as it was
  before the call, so the age group is computed from the age before the cast.
\<close>

definition customer_row :: "'a customer_scheme \<Rightarrow> customer_features" where
  "customer_row r =
     \<lparr>customer_id = customer_id r,
      club_member_status = club_member_status r,
      age = cast_float64 (age r),
      postal_code = postal_code r,
      age_group = create_age_group (age r)\<rparr>"

definition compute_features_customers ::
  "('a customer_scheme) frame \<Rightarrow> bool \<Rightarrow> error + customer_features frame" where
  "compute_features_customers df drop_null_age =
     (let missing_columns = filter (\<lambda>c. c \<notin> set (columns df)) required_columns in
      if missing_columns \<noteq> []
      then Inl (ValueError (''Columns '' @ str_join '', '' missing_columns @
                            '' not found in the DataFrame''))
      else
        let df1 = drop_na_age (filling_missing_club_member_status df);
            df2 = \<lparr>schema = select_schema
                      [''customer_id'', ''club_member_status'', ''age'', ''postal_code'', ''age_group'']
                      (with_column ''age'' Float64 (with_column ''age_group'' Utf8 (schema df1))),
                   rows = map customer_row (rows df1)\<rparr>
        in if drop_null_age then Inr (df2\<lparr>rows := filter (\<lambda>r. age r \<noteq> None) (rows df2)\<rparr>)
           else Inr df2)"

section \<open>Transaction features\<close>

text \<open>
  An \<open>article_id\<close> cell is an integer or a string, as the source table has it.  A
  temporal cell is stored as the library stores it: the integer count of days (column
  type \<open>Date\<close>) or of time units (column type \<open>Datetime u\<close>) since 1970-01-01.
\<close>

datatype ident = IntId int | StrId string

record transaction = keyed +
  article_id :: "ident option"
  t_dat :: "int option"

record transaction_features = transaction +
  year :: "int option"
  month :: "int option"
  day :: "int option"
  day_of_week :: "int option"

text \<open>The decimal numeral of an integer, as the cast to a string prints it.\<close>

fun str_of_nat :: "nat \<Rightarrow> string" where
  "str_of_nat n =
     (if n < 10 then [char_of (48 + n)]
      else str_of_nat (n div 10) @ [char_of (48 + n mod 10)])"

declare str_of_nat.simps [simp del]

definition str_of_int :: "int \<Rightarrow> string" where
  "str_of_int i = (if i < 0 then CHR ''-'' # str_of_nat (nat (- i)) else str_of_nat (nat i))"

definition cast_utf8 :: "ident option \<Rightarrow> ident option" where
  "cast_utf8 c =
     (case c of None \<Rightarrow> None
      | Some (IntId i) \<Rightarrow> Some (StrId (str_of_int i))
      | Some (StrId s) \<Rightarrow> Some (StrId s))"

subsection \<open>The calendar of the host's date library\<close>

fun units_per_day :: "time_unit \<Rightarrow> int" where
  "units_per_day Ns = 86400000000000"
| "units_per_day Us = 86400000000"
| "units_per_day Ms = 86400000"

text \<open>The day number of a temporal cell; \<open>None\<close> for a column that is not temporal.\<close>

fun epoch_days :: "dtype \<Rightarrow> int \<Rightarrow> int option" where
  "epoch_days Date v = Some v"
| "epoch_days (Datetime u) v = Some (v div units_per_day u)"
| "epoch_days _ v = None"

text \<open>
  Year, month and day of a day number in the proleptic Gregorian calendar, by the usual
  era arithmetic (an era is 400 years, 146097 days, and starts on a first of March).
\<close>

definition civil_from_days :: "int \<Rightarrow> int \<times> int \<times> int" where
  "civil_from_days z0 =
     (let z = z0 + 719468;
          era = z div 146097;
          doe = z - era * 146097;
          yoe = (doe - doe div 1460 + doe div 36524 - doe div 146096) div 365;
          y = yoe + era * 400;
          doy = doe - (365 * yoe + yoe div 4 - yoe div 100);
          mp = (5 * doy + 2) div 153;
          d = doy - (153 * mp + 2) div 5 + 1;
          m = (if mp < 10 then mp + 3 else mp - 9)
      in (if m \<le> 2 then y + 1 else y, m, d))"

text \<open>The ISO weekday, Monday 1 to Sunday 7; 1970-01-01 was a Thursday.\<close>

definition iso_weekday :: "int \<Rightarrow> int" where
  "iso_weekday z = (z + 3) mod 7 + 1"

definition dt_year :: "dtype \<Rightarrow> int option \<Rightarrow> int option" where
  "dt_year ty c = (case c of None \<Rightarrow> None
     | Some v \<Rightarrow> map_option (\<lambda>z. fst (civil_from_days z)) (epoch_days ty v))"

definition dt_month :: "dtype \<Rightarrow> int option \<Rightarrow> int option" where
  "dt_month ty c = (case c of None \<Rightarrow> None
     | Some v \<Rightarrow> map_option (\<lambda>z. fst (snd (civil_from_days z))) (epoch_days ty v))"

definition dt_day :: "dtype \<Rightarrow> int option \<Rightarrow> int option" where
  "dt_day ty c = (case c of None \<Rightarrow> None
     | Some v \<Rightarrow> map_option (\<lambda>z. snd (snd (civil_from_days z))) (epoch_days ty v))"

definition dt_weekday :: "dtype \<Rightarrow> int option \<Rightarrow> int option" where
  "dt_weekday ty c = (case c of None \<Rightarrow> None
     | Some v \<Rightarrow> map_option iso_weekday (epoch_days ty v))"

text \<open>
  \<open>df["t_dat"].cast(pl.Int64) // 1_000_000\<close> on one cell: the cast gives the stored
  integer, and \<open>//\<close> is the floor division.
\<close>

definition convert_t_dat_to_epoch_millisecond :: "int option \<Rightarrow> int option" where
  "convert_t_dat_to_epoch_millisecond c = map_option (\<lambda>v. v div 1000000) c"

definition is_temporal :: "dtype \<Rightarrow> bool" where
  "is_temporal ty = (case ty of Date \<Rightarrow> True | Datetime u \<Rightarrow> True | _ \<Rightarrow> False)"

text \<open>
  One output row.  Every expression reads the frame it is applied to: the calendar
  fields are taken from \<open>t_dat\<close> before the last \<open>with_columns\<close> replaces it.  The
  columns the function does not name are carried over as they are.
\<close>

definition transaction_row ::
  "dtype \<Rightarrow> 'a transaction_scheme \<Rightarrow> 'a transaction_features_scheme" where
  "transaction_row ty r =
     \<lparr>customer_id = customer_id r,
      article_id = cast_utf8 (article_id r),
      t_dat = convert_t_dat_to_epoch_millisecond (t_dat r),
      year = dt_year ty (t_dat r),
      month = dt_month ty (t_dat r),
      day = dt_day ty (t_dat r),
      day_of_week = dt_weekday ty (t_dat r),
      \<dots> = transaction.more r\<rparr>"

text \<open>
  \<open>compute_features_transactions\<close>.  A column the expressions name and the frame lacks,
  and a \<open>.dt\<close> accessor on a column that is not temporal, are errors of the library.
\<close>

definition compute_features_transactions ::
  "('a transaction_scheme) frame \<Rightarrow> error + ('a transaction_features_scheme) frame" where
  "compute_features_transactions df =
     (case map_of (schema df) ''article_id'' of
        None \<Rightarrow> Inl (ColumnNotFoundError ''article_id'')
      | Some _ \<Rightarrow>
          (case map_of (schema df) ''t_dat'' of
             None \<Rightarrow> Inl (ColumnNotFoundError ''t_dat'')
           | Some ty \<Rightarrow>
               if \<not> is_temporal ty then Inl InvalidOperationError
               else Inr
                 \<lparr>schema =
                    with_column ''t_dat'' Int64
                      (with_column ''day_of_week'' Int8
                        (with_column ''day'' Int8
                          (with_column ''month'' Int8
                            (with_column ''year'' Int32
                              (with_column ''article_id'' Utf8 (schema df)))))),
                  rows = map (transaction_row ty) (rows df)\<rparr>))"

section \<open>The age groups as the specification names them\<close>

text \<open>
  The seven labels, and the ages a label names when it is read as the specification reads
  it: a closed range of ages, the last one open above.  This is the reading the labels
  given by \<open>create_age_group\<close> are compared with.
\<close>

definition AgeGroups :: "string list" where
  "AgeGroups = [''0-18'', ''19-25'', ''26-35'', ''36-45'', ''46-55'', ''56-65'', ''66+'']"

definition label_range :: "string \<Rightarrow> real \<Rightarrow> bool" where
  "label_range l x =
     (if l = ''0-18'' then 0 \<le> x \<and> x \<le> 18
      else if l = ''19-25'' then 19 \<le> x \<and> x \<le> 25
      else if l = ''26-35'' then 26 \<le> x \<and> x \<le> 35
      else if l = ''36-45'' then 36 \<le> x \<and> x \<le> 45
      else if l = ''46-55'' then 46 \<le> x \<and> x \<le> 55
      else if l = ''56-65'' then 56 \<le> x \<and> x \<le> 65
      else if l = ''66+'' then 66 \<le> x
      else False)"

text \<open>
  The ages that lie strictly between two consecutive ranges: the six open intervals from
  18 to 19, 25 to 26, 35 to 36, 45 to 46, 55 to 56 and 65 to 66.
\<close>

definition between_ranges :: "real \<Rightarrow> bool" where
  "between_ranges x =
     ((18 < x \<and> x < 19) \<or> (25 < x \<and> x < 26) \<or> (35 < x \<and> x < 36)
      \<or> (45 < x \<and> x < 46) \<or> (55 < x \<and> x < 56) \<or> (65 < x \<and> x < 66))"

section \<open>Epoch milliseconds as the specification names them\<close>

text \<open>
  The epoch-millisecond value of a temporal cell as the specification's glossary reads
  it: the integer count of milliseconds from 1970-01-01 00:00:00 UTC to the instant the
  cell denotes, whatever unit the column stores.  This is what the value
  \<open>convert_t_dat_to_epoch_millisecond\<close> leaves in \<open>t_dat\<close> is compared with.
\<close>

definition epoch_millisecond :: "dtype \<Rightarrow> int \<Rightarrow> int option" where
  "epoch_millisecond ty v =
     (case ty of
        Date \<Rightarrow> Some (v * 86400000)
      | Datetime Ns \<Rightarrow> Some (v div 1000000)
      | Datetime Us \<Rightarrow> Some (v div 1000)
      | Datetime Ms \<Rightarrow> Some v
      | _ \<Rightarrow> None)"

section \<open>Cyclical month encoding over the reals\<close>

text \<open>
  \<open>month_sin\<close>, \<open>month_cos\<close> and \<open>calculate_month_sin_cos\<close> compute
  \<open>sin (month * (2 * pi / 12))\<close> and the cosine in 64-bit floating point.  The definitions
  here are the same formulas over the real numbers; what the rounded results do in their
  last bits is outside what they say.
\<close>

definition month_angle :: "real" where
  "month_angle = 2 * pi / 12"

definition month_sin_real :: "int \<Rightarrow> real" where
  "month_sin_real m = sin (of_int m * month_angle)"

definition month_cos_real :: "int \<Rightarrow> real" where
  "month_cos_real m = cos (of_int m * month_angle)"

section \<open>Example tables\<close>

text \<open>
  A small concrete host and concrete tables, on which the definitions are evaluated.  The
  example host draws a run of consecutive positions that starts at the seed and wraps
  around the end of the table.
\<close>

definition demo_host :: "nat host" where
  "demo_host =
     \<lparr>py_seed = (\<lambda>a. nat \<bar>a\<bar>),
      py_randint = (\<lambda>lo hi g. (lo + int ((75 * g + 74) mod nat (hi - lo + 1)), (75 * g + 74) mod 65537)),
      rand_index = (\<lambda>s n h. map (\<lambda>i. (nat s + i) mod h) [0..<n])\<rparr>"

definition demo_customer :: "nat \<Rightarrow> customer" where
  "demo_customer i =
     \<lparr>customer_id = Some (str_of_nat i),
      club_member_status = (if even i then Some ''ACTIVE'' else None),
      age = Some (I64 (int (i mod 90))),
      postal_code = Some ''00000''\<rparr>"

definition demo_customers :: "customer frame" where
  "demo_customers =
     \<lparr>schema = [(''customer_id'', Utf8), (''club_member_status'', Utf8), (''age'', Int64),
                (''postal_code'', Utf8)],
      rows = map demo_customer [0..<1000]\<rparr>"

definition small_customers :: "customer frame" where
  "small_customers =
     \<lparr>schema = [(''customer_id'', Utf8), (''club_member_status'', Utf8), (''age'', Float64),
                (''postal_code'', Utf8)],
      rows = [\<lparr>customer_id = Some ''a'', club_member_status = None,
                age = Some (F64 10), postal_code = Some ''p1''\<rparr>,
              \<lparr>customer_id = Some ''b'', club_member_status = Some ''ACTIVE'',
                age = None, postal_code = Some ''p2''\<rparr>,
              \<lparr>customer_id = Some ''c'', club_member_status = Some ''ACTIVE'',
                age = Some (F64 70), postal_code = Some ''p3''\<rparr>]\<rparr>"

definition demo_transactions :: "transaction frame" where
  "demo_transactions =
     \<lparr>schema = [(''t_dat'', Datetime Us), (''customer_id'', Utf8), (''article_id'', Int64)],
      rows = [\<lparr>customer_id = Some ''7'', article_id = Some (IntId 108775015),
                t_dat = Some 1579046400000000\<rparr>,
              \<lparr>customer_id = None, article_id = Some (IntId 108775044), t_dat = None\<rparr>,
              \<lparr>customer_id = Some ''5000'', article_id = Some (StrId ''0110065001''),
                t_dat = Some 1582934400000000\<rparr>]\<rparr>"

definition demo_transactions_b :: "transaction frame" where
  "demo_transactions_b =
     \<lparr>schema = [(''customer_id'', Utf8), (''article_id'', Utf8), (''t_dat'', Datetime Us)],
      rows = [\<lparr>customer_id = Some ''12'', article_id = Some (StrId ''0110065001''),
                t_dat = Some 1582934400000000\<rparr>,
              \<lparr>customer_id = Some ''999'', article_id = Some (StrId ''0663713001''),
                t_dat = Some 1579046400000000\<rparr>]\<rparr>"

section \<open>Properties of the sampler\<close>

subsection \<open>The library steps\<close>

lemma gather_in_range:
  "\<forall>i \<in> set is. i < length xs \<Longrightarrow> gather is xs = Inr (map (\<lambda>i. xs ! i) is)"
  by (induction "is") simp_all

lemma gather_Inr:
  "gather is xs = Inr ys \<Longrightarrow> length ys = length is \<and> set ys \<subseteq> set xs"
  by (induction "is" arbitrary: ys) (auto split: if_splits sum.splits)

lemma map_of_SIZES_total: "\<exists>n. map_of SIZES sz = Some n"
  by (cases sz) (simp_all add: SIZES_def)


lemma df_sample_enough:
  assumes "draws_without_replacement H" and "n \<le> height df"
  shows "\<exists>rs g'. df_sample H n df g = (Inr (df\<lparr>rows := rs\<rparr>), g') \<and> length rs = n \<and> set rs \<subseteq> set (rows df)"
proof -
  obtain s g' where sg: "py_randint H 0 10000 g = (s, g')" by (cases "py_randint H 0 10000 g")
  let ?is = "rand_index H s n (height df)"
  from assms have len: "length ?is = n" and rng: "\<forall>i \<in> set ?is. i < length (rows df)"
    unfolding draws_without_replacement_def height_def by blast+
  from gather_in_range [OF rng] have g: "gather ?is (rows df) = Inr (map (\<lambda>i. rows df ! i) ?is)" .
  from gather_Inr [OF g] len have "length (map (\<lambda>i. rows df ! i) ?is) = n"
    and "set (map (\<lambda>i. rows df ! i) ?is) \<subseteq> set (rows df)" by simp_all
  with sg g assms(2) show ?thesis
    by (intro exI [of _ "map (\<lambda>i. rows df ! i) ?is"] exI [of _ g']) (simp add: df_sample_def)
qed

lemma gather_all:
  assumes "distinct is" and "length is = length xs" and "\<forall>i \<in> set is. i < length xs"
    and "gather is xs = Inr ys"
  shows "set ys = set xs"
proof -
  have "set is \<subseteq> {0..<length xs}" using assms(3) by auto
  moreover have "card (set is) = card {0..<length xs}"
    using assms(1,2) by (simp add: distinct_card)
  ultimately have "set is = {0..<length xs}" by (simp add: card_subset_eq)
  moreover from gather_in_range [OF assms(3)] assms(4) have "ys = map (\<lambda>i. xs ! i) is" by simp
  ultimately show ?thesis by (simp add: set_conv_nth [of xs] image_def) (auto)
qed

lemma df_sample_whole:
  assumes "draws_without_replacement H" and "df_sample H (height df) df g = (Inr cs, g')"
  shows "set (rows cs) = set (rows df)"
proof -
  obtain s g1 where sg: "py_randint H 0 10000 g = (s, g1)" by (cases "py_randint H 0 10000 g")
  let ?is = "rand_index H s (height df) (height df)"
  from assms(1) have p: "distinct ?is" "length ?is = length (rows df)"
      "\<forall>i \<in> set ?is. i < length (rows df)"
    unfolding draws_without_replacement_def height_def by auto
  from assms(2) sg obtain rs where "gather ?is (rows df) = Inr rs" and "rows cs = rs"
    by (auto simp: df_sample_def split: sum.splits)
  with gather_all [OF p] show ?thesis by simp
qed

lemma sample_cases:
  assumes "map_of SIZES (size_class self) = Some n"
  shows "sample H self c t g0 =
     (case df_sample H n c (py_seed H 42) of
        (Inl e, g') \<Rightarrow> (Inl e, g')
      | (Inr cs, g') \<Rightarrow>
          (case select_customer_id cs of
             Inl e \<Rightarrow> (Inl e, g')
           | Inr keys \<Rightarrow>
               (case join_on_customer_id t keys of
                  Inl e \<Rightarrow> (Inl e, g')
                | Inr ts \<Rightarrow> (Inr \<lparr>customers = cs, transactions = ts\<rparr>, g'))))"
  using assms by (simp add: sample_def)

lemma sample_Inr:
  assumes "sample H self c t g0 = (Inr out, g1)"
  shows "\<exists>n. map_of SIZES (size_class self) = Some n
           \<and> df_sample H n c (py_seed H 42) = (Inr (customers out), g1)
           \<and> ''customer_id'' \<in> set (columns (customers out))
           \<and> ''customer_id'' \<in> set (columns t)
           \<and> transactions out = t\<lparr>rows :=
                concat (map (\<lambda>x. map (\<lambda>k. x)
                  (filter (\<lambda>k. k \<noteq> None \<and> k = customer_id x)
                     (map customer_id (rows (customers out))))) (rows t))\<rparr>"
  using assms
  by (auto simp: sample_def Let_def select_customer_id_def join_on_customer_id_def
           split: option.splits prod.splits sum.splits if_splits)

lemma df_sample_Inr:
  assumes "df_sample H n df g = (Inr cs, g')"
  shows "schema cs = schema df \<and> length (rows cs) = length (rand_index H (fst (py_randint H 0 10000 g)) n (height df))
         \<and> set (rows cs) \<subseteq> set (rows df) \<and> n \<le> height df"
  using assms
  by (auto simp: df_sample_def split: prod.splits sum.splits if_splits dest!: gather_Inr)

lemma sample_succeeds:
  assumes "draws_without_replacement H"
    and "map_of SIZES (size_class self) = Some n"
    and "n \<le> height c"
    and "''customer_id'' \<in> set (columns c)"
    and "''customer_id'' \<in> set (columns t)"
  shows "\<exists>out g'. sample H self c t g0 = (Inr out, g') \<and> height (customers out) = n
           \<and> set (rows (customers out)) \<subseteq> set (rows c)"
proof -
  from df_sample_enough [OF assms(1,3)] obtain rs g'
    where d: "df_sample H n c (py_seed H 42) = (Inr (c\<lparr>rows := rs\<rparr>), g')"
      and l: "length rs = n" and sub: "set rs \<subseteq> set (rows c)" by blast
  have "sample H self c t g0 =
     (Inr \<lparr>customers = c\<lparr>rows := rs\<rparr>,
           transactions = t\<lparr>rows := concat (map (\<lambda>x. map (\<lambda>k. x)
                  (filter (\<lambda>k. k \<noteq> None \<and> k = customer_id x)
                     (map customer_id rs))) (rows t))\<rparr>\<rparr>, g')"
    using assms(4,5) d
    by (simp add: sample_cases [OF assms(2)] select_customer_id_def join_on_customer_id_def
          columns_def)
  with l sub show ?thesis by (simp add: height_def)
qed

subsection \<open>The example host and tables\<close>

lemma rot_inj_le:
  assumes "x \<le> y" "y < h" "(s + x) mod h = (s + y) mod h"
  shows "x = (y::nat)"
proof -
  from assms(1,3) have "h dvd (s + y) - (s + x)"
    by (metis add_le_cancel_left mod_eq_dvd_iff_nat)
  then have "h dvd y - x" by simp
  moreover have "y - x < h" using assms(2) by simp
  ultimately have "y - x = 0" by (meson dvd_imp_le not_less zero_less_iff_neq_zero)
  with assms(1) show ?thesis by simp
qed

lemma rot_inj: "x < h \<Longrightarrow> y < h \<Longrightarrow> (s + x) mod h = (s + y) mod h \<Longrightarrow> x = (y::nat)"
  by (metis rot_inj_le nat_le_linear)

lemma demo_host_draws: "draws_without_replacement demo_host"
proof -
  have inj: "inj_on (\<lambda>i. (s + i) mod h) {0..<n}" if "n \<le> h" for s n h :: nat
    using that by (auto intro!: inj_onI dest!: rot_inj [rotated 2])
  show ?thesis
    unfolding draws_without_replacement_def demo_host_def
    by (auto simp: distinct_map inj)
qed

lemma demo_height: "height demo_customers = 1000"
  by (simp add: height_def demo_customers_def)

lemma demo_columns:
  "''customer_id'' \<in> set (columns demo_customers)"
  "''customer_id'' \<in> set (columns demo_transactions)"
  "''customer_id'' \<in> set (columns small_customers)"
  by (simp_all add: columns_def demo_customers_def demo_transactions_def small_customers_def)

lemma str_of_nat_short: "i < 1000 \<Longrightarrow> length (str_of_nat i) \<le> 3"
proof -
  assume a: "i < 1000"
  have one: "length (str_of_nat k) = 1" if "k < 10" for k
    using that by (subst str_of_nat.simps) (simp del: str_of_nat.simps)
  have two: "length (str_of_nat k) \<le> 2" if "k < 100" for k
  proof (cases "k < 10")
    case True then show ?thesis by (simp add: one del: str_of_nat.simps)
  next
    case False
    with that have "k div 10 < 10" by simp
    from one [OF this] False show ?thesis
      by (subst str_of_nat.simps) (simp del: str_of_nat.simps)
  qed
  show ?thesis
  proof (cases "i < 10")
    case True then show ?thesis by (simp add: one del: str_of_nat.simps)
  next
    case False
    with a have "i div 10 < 100" by simp
    from two [OF this] False show ?thesis
      by (subst str_of_nat.simps) (simp del: str_of_nat.simps)
  qed
qed

lemma join_rows_iff:
  "x \<in> set (concat (map (\<lambda>t. map (\<lambda>k. t)
                 (filter (\<lambda>k. k \<noteq> None \<and> k = customer_id t) keys)) ts))
     \<longleftrightarrow> x \<in> set ts \<and> customer_id x \<noteq> None \<and> customer_id x \<in> set keys"
proof (induction ts)
  case Nil
  then show ?case by simp
next
  case (Cons t ts)
  have "x \<in> set (map (\<lambda>k. t) (filter (\<lambda>k. k \<noteq> None \<and> k = customer_id t) keys))
          \<longleftrightarrow> x = t \<and> customer_id t \<noteq> None \<and> customer_id t \<in> set keys"
    by auto
  with Cons show ?case by auto
qed

lemma sample_keeps_sampled:
  assumes "sample H self customers_df transaction_df g0 = (Inr out, g1)"
    and "x \<in> set (rows transaction_df)"
    and "customer_id x \<noteq> None"
    and "customer_id x \<in> set (map customer_id (rows (customers out)))"
  shows "x \<in> set (rows (transactions out))"
proof -
  from sample_Inr [OF assms(1)] have "rows (transactions out) =
      concat (map (\<lambda>x. map (\<lambda>k. x)
                  (filter (\<lambda>k. k \<noteq> None \<and> k = customer_id x)
                     (map customer_id (rows (customers out))))) (rows transaction_df))"
    by auto
  with assms(2,3,4) show ?thesis by (simp only: join_rows_iff) simp
qed

lemma demo_sample_whole:
  assumes "sample demo_host (DatasetSampler_init SMALL) demo_customers demo_transactions g0
             = (Inr out, g1)"
  shows "set (rows (customers out)) = set (rows demo_customers)"
proof -
  from sample_Inr [OF assms] obtain n
    where "map_of SIZES (size_class (DatasetSampler_init SMALL)) = Some n"
      and d: "df_sample demo_host n demo_customers (py_seed demo_host 42)
                = (Inr (customers out), g1)" by blast
  then have "n = height demo_customers"
    by (simp add: SIZES_def DatasetSampler_init_def demo_height)
  with d df_sample_whole [OF demo_host_draws, of demo_customers "py_seed demo_host 42"
      "customers out" g1]
  show ?thesis by simp
qed

lemma demo_customer_7: "customer_id (demo_customer 7) = Some ''7''"
  by (simp add: demo_customer_def str_of_nat.simps) code_simp

subsection \<open>Determinism\<close>

text \<open>
  Claim C1.  \<open>sample\<close> is deterministic: its result (the sampled tables or the error, and
  the state it leaves the process-wide generator in) does not depend on the state the
  generator was in before the call, because the call seeds it with 42 first.  So two calls
  with the same tables and the same size class return the same rows, also when the second
  call starts from the state the first one left.
\<close>

theorem sample_deterministic:
  "sample H self customers_df transaction_df g1 = sample H self customers_df transaction_df g2
   \<and> fst (sample H self customers_df transaction_df
            (snd (sample H self customers_df transaction_df g1)))
       = fst (sample H self customers_df transaction_df g1)"
  by (simp add: sample_def)

theorem sample_deterministic_witness:
  "sample demo_host (DatasetSampler_init SMALL) demo_customers demo_transactions 0
     = sample demo_host (DatasetSampler_init SMALL) demo_customers demo_transactions 2024
   \<and> fst (sample demo_host (DatasetSampler_init SMALL) demo_customers demo_transactions
            (snd (sample demo_host (DatasetSampler_init SMALL) demo_customers demo_transactions 0)))
       = fst (sample demo_host (DatasetSampler_init SMALL) demo_customers demo_transactions 0)"
  using sample_deterministic [of demo_host "DatasetSampler_init SMALL" demo_customers
      demo_transactions 0 2024] .

subsection \<open>Referential integrity\<close>

text \<open>
  Claim C2.  Every row of the transaction table \<open>sample\<close> returns has a customer id that
  is not null and appears in the customer table of the same result; a transaction whose
  customer was not sampled does not survive.
\<close>

theorem sample_referential_integrity:
  assumes "sample H self customers_df transaction_df g0 = (Inr out, g1)"
  shows "(\<forall>x \<in> set (rows (transactions out)).
            customer_id x \<noteq> None \<and>
            customer_id x \<in> set (map customer_id (rows (customers out))))
       \<and> (\<forall>x \<in> set (rows transaction_df).
            customer_id x \<notin> set (map customer_id (rows (customers out)))
              \<longrightarrow> x \<notin> set (rows (transactions out)))"
  using sample_Inr [OF assms] by auto


theorem sample_referential_integrity_witness:
  "\<exists>out g1.
      sample demo_host (DatasetSampler_init SMALL) demo_customers demo_transactions 0
        = (Inr out, g1)
    \<and> (\<forall>x \<in> set (rows (transactions out)).
          customer_id x \<noteq> None \<and>
          customer_id x \<in> set (map customer_id (rows (customers out))))
    \<and> rows demo_transactions ! 0 \<in> set (rows (transactions out))
    \<and> rows demo_transactions ! 1 \<notin> set (rows (transactions out))
    \<and> rows demo_transactions ! 2 \<notin> set (rows (transactions out))"
proof -
  have m: "map_of SIZES (size_class (DatasetSampler_init SMALL)) = Some 1000"
    by (simp add: SIZES_def DatasetSampler_init_def)
  have h: "1000 \<le> height demo_customers" by (simp add: demo_height)
  from sample_succeeds [OF demo_host_draws m h demo_columns(1,2), of 0] obtain out g1
    where s: "sample demo_host (DatasetSampler_init SMALL) demo_customers demo_transactions 0
                = (Inr out, g1)"
      and sub: "set (rows (customers out)) \<subseteq> set (rows demo_customers)" by blast
  note ri = sample_referential_integrity [OF s]
  have r0: "customer_id (rows demo_transactions ! 0) = Some ''7''"
    by (simp add: demo_transactions_def)
  have r1: "customer_id (rows demo_transactions ! 1) = None"
    by (simp add: demo_transactions_def)
  have r2: "customer_id (rows demo_transactions ! 2) = Some ''5000''"
    by (simp add: demo_transactions_def)
  have mem: "rows demo_transactions ! 0 \<in> set (rows demo_transactions)"
       "rows demo_transactions ! 1 \<in> set (rows demo_transactions)"
       "rows demo_transactions ! 2 \<in> set (rows demo_transactions)"
    by (simp_all add: demo_transactions_def)
  have "demo_customer 7 \<in> set (rows demo_customers)"
    by (simp add: demo_customers_def)
  then have "demo_customer 7 \<in> set (rows (customers out))"
    by (simp add: demo_sample_whole [OF s])
  then have "Some ''7'' \<in> set (map customer_id (rows (customers out)))"
    using demo_customer_7 by force
  with sample_keeps_sampled [OF s mem(1)] r0
  have in0: "rows demo_transactions ! 0 \<in> set (rows (transactions out))" by simp
  have "Some ''5000'' \<notin> set (map customer_id (rows (customers out)))"
  proof
    assume "Some ''5000'' \<in> set (map customer_id (rows (customers out)))"
    with sub obtain i where "i < 1000" and "Some ''5000'' = customer_id (demo_customer i)"
      by (auto simp: demo_customers_def)
    then have "str_of_nat i = ''5000''" by (simp add: demo_customer_def)
    then have "length (str_of_nat i) = 4" by simp
    with str_of_nat_short [OF \<open>i < 1000\<close>] show False by simp
  qed
  with ri r2 mem have "rows demo_transactions ! 2 \<notin> set (rows (transactions out))" by metis
  moreover from ri r1 have "rows demo_transactions ! 1 \<notin> set (rows (transactions out))" by metis
  ultimately show ?thesis using s ri in0 by blast
qed

subsection \<open>The number of sampled customers\<close>

text \<open>
  Claim C6.  The table of supported sizes is LARGE 50000, MEDIUM 5000, SMALL 1000, and for
  each of its entries, when the customer table has at least that many rows (and both
  tables carry the key column), \<open>sample\<close> succeeds and returns exactly that many customers.
\<close>

theorem sample_returns_configured_count:
  assumes "draws_without_replacement H"
    and "(sz, n) \<in> set get_supported_sizes"
    and "n \<le> height customers_df"
    and "''customer_id'' \<in> set (columns customers_df)"
    and "''customer_id'' \<in> set (columns transaction_df)"
  shows "get_supported_sizes = [(LARGE, 50000), (MEDIUM, 5000), (SMALL, 1000)]
       \<and> (\<exists>out g1. sample H (DatasetSampler_init sz) customers_df transaction_df g0 = (Inr out, g1)
              \<and> height (customers out) = n)"
proof -
  from assms(2) have "map_of SIZES (size_class (DatasetSampler_init sz)) = Some n"
    by (auto simp: get_supported_sizes_def SIZES_def DatasetSampler_init_def)
  from sample_succeeds [OF assms(1) this assms(3,4,5), of g0] obtain out g1
    where "sample H (DatasetSampler_init sz) customers_df transaction_df g0 = (Inr out, g1)"
      and "height (customers out) = n" by blast
  then have "\<exists>out g1. sample H (DatasetSampler_init sz) customers_df transaction_df g0
      = (Inr out, g1) \<and> height (customers out) = n" by blast
  then show ?thesis by (simp add: get_supported_sizes_def SIZES_def)
qed

theorem sample_returns_configured_count_witness:
  "get_supported_sizes = [(LARGE, 50000), (MEDIUM, 5000), (SMALL, 1000)]
   \<and> (\<exists>out g1. sample demo_host (DatasetSampler_init SMALL) demo_customers demo_transactions 0
                  = (Inr out, g1)
              \<and> height (customers out) = 1000)"
proof -
  have s: "(SMALL, 1000) \<in> set get_supported_sizes"
    by (simp add: get_supported_sizes_def SIZES_def)
  have h: "1000 \<le> height demo_customers" by (simp add: demo_height)
  show ?thesis
    using sample_returns_configured_count [OF demo_host_draws s h demo_columns(1,2), of 0] .
qed

subsection \<open>A population smaller than the request\<close>



section \<open>Properties of the customer features\<close>

subsection \<open>Age groups\<close>

lemma create_age_group_Some:
  "create_age_group (Some a) =
     (let x = num_val a in
      if 0 \<le> x \<and> x \<le> 18 then Some ''0-18''
      else if 19 \<le> x \<and> x \<le> 25 then Some ''19-25''
      else if 26 \<le> x \<and> x \<le> 35 then Some ''26-35''
      else if 36 \<le> x \<and> x \<le> 45 then Some ''36-45''
      else if 46 \<le> x \<and> x \<le> 55 then Some ''46-55''
      else if 56 \<le> x \<and> x \<le> 65 then Some ''56-65''
      else Some ''66+'')"
  by (simp add: create_age_group_def is_between_def holds_def Let_def)

lemma create_age_group_in_AgeGroups:
  "\<exists>l. l \<in> set AgeGroups \<and> create_age_group c = Some l"
  by (simp add: create_age_group_def AgeGroups_def)

lemma whole_age_not_between: "x \<in> \<int> \<Longrightarrow> \<not> between_ranges x"
proof -
  assume "x \<in> \<int>"
  then obtain k :: int where k: "x = of_int k" by (auto elim: Ints_cases)
  show ?thesis unfolding k between_ranges_def by simp
qed

lemma label_of_age:
  assumes "0 \<le> num_val a"
  shows "(\<exists>l. create_age_group (Some a) = Some l \<and> label_range l (num_val a))
           \<longleftrightarrow> \<not> between_ranges (num_val a)"
proof (cases "between_ranges (num_val a)")
  case True
  then have "create_age_group (Some a) = Some ''66+''" and "\<not> 66 \<le> num_val a"
    by (auto simp: between_ranges_def create_age_group_Some Let_def)
  with True show ?thesis by (simp add: label_range_def)
next
  case False
  with assms have "num_val a \<le> 18 \<or> (19 \<le> num_val a \<and> num_val a \<le> 25)
       \<or> (26 \<le> num_val a \<and> num_val a \<le> 35) \<or> (36 \<le> num_val a \<and> num_val a \<le> 45)
       \<or> (46 \<le> num_val a \<and> num_val a \<le> 55) \<or> (56 \<le> num_val a \<and> num_val a \<le> 65)
       \<or> 66 \<le> num_val a"
    unfolding between_ranges_def by linarith
  with assms have "\<exists>l. create_age_group (Some a) = Some l \<and> label_range l (num_val a)"
    by (auto simp: create_age_group_Some label_range_def Let_def)
  with False show ?thesis by simp
qed

text \<open>
  Claim C4, as amended.  Every age gets exactly one of the seven labels.  For an age from
  0 on, whole or fractional, the label is the one whose range holds the age exactly when
  the age does not lie strictly between two consecutive ranges; so every age inside a
  range (10.5 gets \<open>0-18\<close>) and every age from 66 on is labelled as its number says.  The
  boundary ages 18, 19, 65 and 66 get \<open>0-18\<close>, \<open>19-25\<close>, \<open>56-65\<close> and \<open>66+\<close>; and an age
  that lies in none of the six closed ranges gets \<open>66+\<close>.
\<close>

theorem create_age_group_consistent_iff:
  "(\<exists>!l. l \<in> set AgeGroups \<and> create_age_group (Some a) = Some l)
   \<and> (0 \<le> num_val a \<longrightarrow>
        ((\<exists>l. create_age_group (Some a) = Some l \<and> label_range l (num_val a))
           \<longleftrightarrow> \<not> between_ranges (num_val a)))
   \<and> create_age_group (Some (I64 18)) = Some ''0-18''
   \<and> create_age_group (Some (I64 19)) = Some ''19-25''
   \<and> create_age_group (Some (I64 65)) = Some ''56-65''
   \<and> create_age_group (Some (I64 66)) = Some ''66+''
   \<and> (\<not> (0 \<le> num_val a \<and> num_val a \<le> 18) \<and> \<not> (19 \<le> num_val a \<and> num_val a \<le> 25)
        \<and> \<not> (26 \<le> num_val a \<and> num_val a \<le> 35) \<and> \<not> (36 \<le> num_val a \<and> num_val a \<le> 45)
        \<and> \<not> (46 \<le> num_val a \<and> num_val a \<le> 55) \<and> \<not> (56 \<le> num_val a \<and> num_val a \<le> 65)
        \<longrightarrow> create_age_group (Some a) = Some ''66+'')"
proof -
  have one: "\<exists>!l. l \<in> set AgeGroups \<and> create_age_group (Some a) = Some l"
    using create_age_group_in_AgeGroups [of "Some a"] by auto
  have bounds: "create_age_group (Some (I64 18)) = Some ''0-18''"
    "create_age_group (Some (I64 19)) = Some ''19-25''"
    "create_age_group (Some (I64 65)) = Some ''56-65''"
    "create_age_group (Some (I64 66)) = Some ''66+''"
    by (simp_all add: create_age_group_Some Let_def)
  have rest: "create_age_group (Some a) = Some ''66+''"
    if "\<not> (0 \<le> num_val a \<and> num_val a \<le> 18)" "\<not> (19 \<le> num_val a \<and> num_val a \<le> 25)"
       "\<not> (26 \<le> num_val a \<and> num_val a \<le> 35)" "\<not> (36 \<le> num_val a \<and> num_val a \<le> 45)"
       "\<not> (46 \<le> num_val a \<and> num_val a \<le> 55)" "\<not> (56 \<le> num_val a \<and> num_val a \<le> 65)"
    using that by (simp add: create_age_group_Some Let_def)
  from one label_of_age [of a] bounds rest show ?thesis by blast
qed

theorem create_age_group_consistent_iff_witness:
  "(\<exists>l. create_age_group (Some (F64 (21 / 2))) = Some l \<and> label_range l (21 / 2))
   \<and> create_age_group (Some (F64 (131 / 2))) = Some ''66+''"
proof -
  have a: "0 \<le> num_val (F64 (21 / 2))" "\<not> between_ranges (num_val (F64 (21 / 2)))"
    by (simp_all add: between_ranges_def)
  have b: "\<not> (0 \<le> num_val (F64 (131 / 2)) \<and> num_val (F64 (131 / 2)) \<le> 18)
        \<and> \<not> (19 \<le> num_val (F64 (131 / 2)) \<and> num_val (F64 (131 / 2)) \<le> 25)
        \<and> \<not> (26 \<le> num_val (F64 (131 / 2)) \<and> num_val (F64 (131 / 2)) \<le> 35)
        \<and> \<not> (36 \<le> num_val (F64 (131 / 2)) \<and> num_val (F64 (131 / 2)) \<le> 45)
        \<and> \<not> (46 \<le> num_val (F64 (131 / 2)) \<and> num_val (F64 (131 / 2)) \<le> 55)
        \<and> \<not> (56 \<le> num_val (F64 (131 / 2)) \<and> num_val (F64 (131 / 2)) \<le> 65)"
    by simp
  from create_age_group_consistent_iff [of "F64 (21 / 2)"] a
  have "\<exists>l. create_age_group (Some (F64 (21 / 2))) = Some l \<and> label_range l (21 / 2)" by simp
  moreover from create_age_group_consistent_iff [of "F64 (131 / 2)"] b
  have "create_age_group (Some (F64 (131 / 2))) = Some ''66+''" by blast
  ultimately show ?thesis by blast
qed

text \<open>
  The claim as it was stated, for every age from 0 on, fractional ones too, fails: the age
  18.5 lies between the first two ranges, so it falls through to \<open>66+\<close>, which does not
  name it.
\<close>

theorem create_age_group_counterexample:
  "(0::real) \<le> 37 / 2 \<and> create_age_group (Some (F64 (37 / 2))) = Some ''66+''
   \<and> \<not> label_range ''66+'' (37 / 2)"
  by (simp add: create_age_group_Some label_range_def Let_def)

subsection \<open>Null handling\<close>

lemma missing_none:
  "set required_columns \<subseteq> set (columns df) \<Longrightarrow>
     filter (\<lambda>c. c \<notin> set (columns df)) required_columns = []"
  by (auto simp: filter_empty_conv)

lemma cast_float64_None [simp]: "cast_float64 c = None \<longleftrightarrow> c = None"
  by (cases c) (simp_all add: cast_float64_def)

lemma compute_features_customers_rows:
  assumes "set required_columns \<subseteq> set (columns df)"
  shows "\<exists>out. compute_features_customers df flag = Inr out
           \<and> rows out = map customer_row
               (filter (\<lambda>r. age r \<noteq> None)
                  (map (\<lambda>r. r\<lparr>club_member_status := fill_null ''ABSENT'' (club_member_status r)\<rparr>)
                     (rows df)))"
proof -
  have "filter (\<lambda>r. age r \<noteq> None) (map customer_row xs) = map customer_row xs"
    if "\<forall>r \<in> set xs. age r \<noteq> None" for xs :: "'a customer_scheme list"
    using that by (induction xs) (simp_all add: customer_row_def)
  then show ?thesis
    using missing_none [OF assms]
    by (simp add: compute_features_customers_def Let_def drop_na_age_def
          filling_missing_club_member_status_def)
qed


lemma filter_customer_row_id:
  "\<forall>r \<in> set xs. age r \<noteq> None \<Longrightarrow>
     filter (\<lambda>r. age r \<noteq> None) (map customer_row xs) = map customer_row xs"
  by (induction xs) (simp_all add: customer_row_def)

lemma small_columns: "set required_columns \<subseteq> set (columns small_customers)"
  by (simp add: required_columns_def columns_def small_customers_def)

lemma small_customers_kept:
  "filter (\<lambda>r. age r \<noteq> None) (rows small_customers)
      = [rows small_customers ! 0, rows small_customers ! 2]"
  by (simp add: small_customers_def)

text \<open>
  Claim C5.  On a table with the required columns \<open>compute_features_customers\<close> succeeds,
  whatever the flag, and in its output no row has a null age group, a null club member
  status or a null age.  The output rows are the input rows whose age is not null, in
  their order: a null status has become \<open>ABSENT\<close>, any other status is kept, and no row
  whose age was null appears.
\<close>

theorem compute_features_customers_nulls:
  assumes "set required_columns \<subseteq> set (columns df)"
  shows "\<exists>out. compute_features_customers df drop_null_age = Inr out
     \<and> (\<forall>r \<in> set (rows out).
           age_group r \<noteq> None \<and> club_member_status r \<noteq> None \<and> age r \<noteq> None)
     \<and> map customer_id (rows out) = map customer_id (filter (\<lambda>r. age r \<noteq> None) (rows df))
     \<and> map club_member_status (rows out)
          = map (\<lambda>r. case club_member_status r of None \<Rightarrow> Some ''ABSENT'' | Some s \<Rightarrow> Some s)
              (filter (\<lambda>r. age r \<noteq> None) (rows df))
     \<and> map age (rows out)
          = map (\<lambda>r. cast_float64 (age r)) (filter (\<lambda>r. age r \<noteq> None) (rows df))
     \<and> map age_group (rows out)
          = map (\<lambda>r. create_age_group (age r)) (filter (\<lambda>r. age r \<noteq> None) (rows df))"
proof -
  from compute_features_customers_rows [OF assms, of drop_null_age] obtain out
    where o: "compute_features_customers df drop_null_age = Inr out"
      and r: "rows out = map customer_row
               (filter (\<lambda>r. age r \<noteq> None)
                  (map (\<lambda>r. r\<lparr>club_member_status := fill_null ''ABSENT'' (club_member_status r)\<rparr>)
                     (rows df)))" by blast
  have nn: "\<forall>r \<in> set (rows out).
           age_group r \<noteq> None \<and> club_member_status r \<noteq> None \<and> age r \<noteq> None"
    unfolding r by (auto simp: customer_row_def create_age_group_def fill_null_def
        cast_float64_def split: option.splits)
  have cols: "map customer_id (rows out) = map customer_id (filter (\<lambda>r. age r \<noteq> None) (rows df))"
    "map club_member_status (rows out)
          = map (\<lambda>r. case club_member_status r of None \<Rightarrow> Some ''ABSENT'' | Some s \<Rightarrow> Some s)
              (filter (\<lambda>r. age r \<noteq> None) (rows df))"
    "map age (rows out)
          = map (\<lambda>r. cast_float64 (age r)) (filter (\<lambda>r. age r \<noteq> None) (rows df))"
    "map age_group (rows out)
          = map (\<lambda>r. create_age_group (age r)) (filter (\<lambda>r. age r \<noteq> None) (rows df))"
    unfolding r
    by (simp_all add: filter_map comp_def customer_row_def fill_null_def)
  from o nn cols show ?thesis by blast
qed

theorem compute_features_customers_nulls_witness:
  "\<exists>out. compute_features_customers small_customers False = Inr out
     \<and> map customer_id (rows out) = [Some ''a'', Some ''c'']
     \<and> map club_member_status (rows out) = [Some ''ABSENT'', Some ''ACTIVE'']
     \<and> map age (rows out) = [Some (F64 10), Some (F64 70)]
     \<and> map age_group (rows out) = [Some ''0-18'', Some ''66+'']"
proof -
  from compute_features_customers_nulls [OF small_columns, of False] obtain out
    where o: "compute_features_customers small_customers False = Inr out"
      and c: "map customer_id (rows out)
             = map customer_id (filter (\<lambda>r. age r \<noteq> None) (rows small_customers))"
        "map club_member_status (rows out)
          = map (\<lambda>r. case club_member_status r of None \<Rightarrow> Some ''ABSENT'' | Some s \<Rightarrow> Some s)
              (filter (\<lambda>r. age r \<noteq> None) (rows small_customers))"
        "map age (rows out)
          = map (\<lambda>r. cast_float64 (age r)) (filter (\<lambda>r. age r \<noteq> None) (rows small_customers))"
        "map age_group (rows out)
          = map (\<lambda>r. create_age_group (age r))
              (filter (\<lambda>r. age r \<noteq> None) (rows small_customers))"
    by (elim exE conjE)
  have "map customer_id (rows out) = [Some ''a'', Some ''c'']"
    unfolding c small_customers_kept by (simp add: small_customers_def)
  moreover have "map club_member_status (rows out) = [Some ''ABSENT'', Some ''ACTIVE'']"
    unfolding c small_customers_kept by (simp add: small_customers_def)
  moreover have "map age (rows out) = [Some (F64 10), Some (F64 70)]"
    unfolding c small_customers_kept by (simp add: small_customers_def cast_float64_def)
  moreover have "map age_group (rows out) = [Some ''0-18'', Some ''66+'']"
    unfolding c small_customers_kept
    by (simp add: small_customers_def create_age_group_Some Let_def)
  ultimately show ?thesis using o by (intro exI [of _ out]) simp
qed

subsection \<open>The flag\<close>

text \<open>
  Claim C9.  The flag \<open>drop_null_age\<close> changes nothing: with it and without it the function
  returns the same table (or the same error), since the rows with a null age are dropped
  before the flag is looked at.
\<close>

theorem drop_null_age_flag_no_effect:
  "compute_features_customers df True = compute_features_customers df False"
proof -
  have "filter (\<lambda>r. age r \<noteq> None) (map customer_row (rows (drop_na_age d)))
          = map customer_row (rows (drop_na_age d))" for d :: "'a customer_scheme frame"
    by (rule filter_customer_row_id) (simp add: drop_na_age_def)
  then show ?thesis
    by (simp add: compute_features_customers_def Let_def)
qed

theorem drop_null_age_flag_no_effect_witness:
  "compute_features_customers small_customers True
     = compute_features_customers small_customers False
   \<and> (\<exists>out. compute_features_customers small_customers True = Inr out
          \<and> map customer_id (rows out) = [Some ''a'', Some ''c''])"
proof -
  from compute_features_customers_rows [OF small_columns, of True] obtain out
    where o: "compute_features_customers small_customers True = Inr out"
      and r: "rows out = map customer_row
               (filter (\<lambda>r. age r \<noteq> None)
                  (map (\<lambda>r. r\<lparr>club_member_status := fill_null ''ABSENT'' (club_member_status r)\<rparr>)
                     (rows small_customers)))" by (elim exE conjE)
  have "map customer_id (rows out) = [Some ''a'', Some ''c'']"
    unfolding r by (simp add: small_customers_def customer_row_def)
  with o drop_null_age_flag_no_effect [of small_customers] show ?thesis by simp
qed

section \<open>Properties of the transaction features\<close>

subsection \<open>Rows and derived columns\<close>

lemma compute_features_transactions_Inr:
  assumes "map_of (schema df) ''article_id'' = Some ta"
    and "map_of (schema df) ''t_dat'' = Some ty"
    and "is_temporal ty"
  shows "\<exists>out. compute_features_transactions df = Inr out
           \<and> rows out = map (transaction_row ty) (rows df)"
  using assms by (simp add: compute_features_transactions_def)

lemma demo_transactions_schema:
  "map_of (schema demo_transactions) ''article_id'' = Some Int64"
  "map_of (schema demo_transactions) ''t_dat'' = Some (Datetime Us)"
  "map_of (schema demo_transactions_b) ''article_id'' = Some Utf8"
  "map_of (schema demo_transactions_b) ''t_dat'' = Some (Datetime Us)"
  by (simp_all add: demo_transactions_def demo_transactions_b_def)

lemma str_of_int_demo: "str_of_int 108775015 = ''108775015''"
  by (simp add: str_of_int_def str_of_nat.simps) code_simp

lemma calendar_demo:
  "dt_year (Datetime Us) (Some 1579046400000000) = Some 2020"
  "dt_month (Datetime Us) (Some 1579046400000000) = Some 1"
  "dt_day (Datetime Us) (Some 1579046400000000) = Some 15"
  "dt_weekday (Datetime Us) (Some 1579046400000000) = Some 3"
  by code_simp+

lemma demo_transaction_row0:
  "transaction_row (Datetime Us) (rows demo_transactions ! 0) =
     \<lparr>customer_id = Some ''7'', article_id = Some (StrId ''108775015''),
      t_dat = Some 1579046400, year = Some 2020, month = Some 1, day = Some 15,
      day_of_week = Some 3\<rparr>"
  by (simp add: demo_transactions_def transaction_row_def cast_utf8_def str_of_int_demo
        convert_t_dat_to_epoch_millisecond_def calendar_demo)



subsection \<open>The unit of the new \<open>t_dat\<close>\<close>

text \<open>
  The divisor is the constant 1000000.  On a column that stores nanoseconds the quotient
  is the epoch-millisecond value.
\<close>

lemma nanosecond_column_epoch_millisecond:
  "convert_t_dat_to_epoch_millisecond (Some v) = epoch_millisecond (Datetime Ns) v"
  by (simp add: convert_t_dat_to_epoch_millisecond_def epoch_millisecond_def)

text \<open>
  Claim C3.  The new \<open>t_dat\<close> is meant to be the epoch-millisecond value of the input
  timestamp, and the function's documentation says so.  On a column that stores
  microseconds (the frame library's default unit for a datetime) it is not: for
  2020-01-15 00:00:00, stored as 1579046400000000 microseconds, the function leaves
  1579046400, the count of seconds, where the epoch-millisecond value is 1579046400000.
\<close>

theorem microsecond_column_not_epoch_millisecond:
  "\<exists>out. compute_features_transactions demo_transactions = Inr out
      \<and> t_dat (rows demo_transactions ! 0) = Some 1579046400000000
      \<and> t_dat (rows out ! 0) = Some 1579046400
      \<and> year (rows out ! 0) = Some 2020 \<and> month (rows out ! 0) = Some 1
      \<and> day (rows out ! 0) = Some 15
      \<and> epoch_millisecond (Datetime Us) 1579046400000000 = Some 1579046400000"
proof -
  have u: "is_temporal (Datetime Us)" by (simp add: is_temporal_def)
  from compute_features_transactions_Inr [OF demo_transactions_schema(1,2) u] obtain out
    where o: "compute_features_transactions demo_transactions = Inr out"
      and r: "rows out = map (transaction_row (Datetime Us)) (rows demo_transactions)"
    by (elim exE conjE)
  have "rows out ! 0 = transaction_row (Datetime Us) (rows demo_transactions ! 0)"
    unfolding r by (simp add: demo_transactions_def)
  then have "t_dat (rows out ! 0) = Some 1579046400 \<and> year (rows out ! 0) = Some 2020
      \<and> month (rows out ! 0) = Some 1 \<and> day (rows out ! 0) = Some 15"
    by (simp add: demo_transaction_row0)
  moreover have "t_dat (rows demo_transactions ! 0) = Some 1579046400000000"
    by (simp add: demo_transactions_def)
  moreover have "epoch_millisecond (Datetime Us) 1579046400000000 = Some 1579046400000"
    by (simp add: epoch_millisecond_def)
  ultimately show ?thesis using o by (intro exI [of _ out]) simp
qed

section \<open>The month encoding as real-number formulas\<close>

text \<open>
  Over the reals the pair lies on the unit circle, and months that differ by a multiple
  of twelve have the same encoding.
\<close>

lemma month_shift: "of_int (m + 12 * k) * month_angle = of_int m * month_angle + 2 * pi * of_int k"
  by (simp add: month_angle_def algebra_simps)

lemma month_unit_circle: "(month_sin_real m)\<^sup>2 + (month_cos_real m)\<^sup>2 = 1"
  by (simp add: month_sin_real_def month_cos_real_def)

lemma month_period:
  "month_sin_real (m + 12 * k) = month_sin_real m"
  "month_cos_real (m + 12 * k) = month_cos_real m"
  unfolding month_sin_real_def month_cos_real_def month_shift
  by (simp_all add: sin_add cos_add)

end
